theory Spec2Isabelle
  imports Complex_Main "HOL-Library.Option_ord"
begin

section \<open>GTFS provider: data model (gtfs.service.ts)\<close>

text \<open>
  JavaScript numbers are modelled by their exact values: an integer-valued number is an
  \<open>int\<close>, a number that may be fractional (a delay inferred as \<open>time - ms / 1000\<close>) is a
  \<open>rat\<close>, and where a number can be \<open>NaN\<close> its type is an \<open>option\<close> with \<open>None\<close> for
  \<open>NaN\<close>. The time value of a \<open>Date\<close> is an integer of at most 8.64e15 in magnitude, or
  \<open>NaN\<close> for an Invalid Date. The exact values are those of the IEEE doubles whenever the
  scheduled times are whole seconds; the rounding of other fractions is not modelled.
\<close>

text \<open>A number that may be \<open>NaN\<close>, and the time value of a \<open>Date\<close>.\<close>

type_synonym number = "rat option"

type_synonym timeValue = "int option"

text \<open>
  A binary arithmetic operation: the result is \<open>NaN\<close> when an operand is. \<open>Math.max\<close> and
  \<open>Math.min\<close> behave the same way.
\<close>

definition nanOp :: "('a \<Rightarrow> 'b \<Rightarrow> 'c) \<Rightarrow> 'a option \<Rightarrow> 'b option \<Rightarrow> 'c option" where
  "nanOp f a b =
     (case a of
        None \<Rightarrow> None
      | Some x \<Rightarrow> (case b of None \<Rightarrow> None | Some y \<Rightarrow> Some (f x y)))"

text \<open>The comparison \<open>a < b\<close> (and \<open>b > a\<close>): false when an operand is \<open>NaN\<close>.\<close>

definition numLess :: "'a::linorder option \<Rightarrow> 'a option \<Rightarrow> bool" where
  "numLess a b =
     (case a of
        None \<Rightarrow> False
      | Some x \<Rightarrow> (case b of None \<Rightarrow> False | Some y \<Rightarrow> x < y))"

record TripStopRaw =
  trip_id :: string
  stop_id :: string
  route_id :: string
  route_name :: string
  route_color :: "string option"
  stop_name :: string
  stop_headsign :: string
  stop_sequence :: int
  arrival_time :: int
  departure_time :: int
  start_date :: string

text \<open>
  \<open>GtfsRt.TripUpdate.IStopTimeEvent\<close>: every field is optional; \<open>time\<close> is the number
  that decoding with \<open>{ longs: Number }\<close> produced.
\<close>

record StopTimeEvent =
  delay :: "int option"
  time :: "int option"

datatype StopTimeScheduleRelationship = STOP_SCHEDULED | SKIPPED | NO_DATA | STOP_UNSCHEDULED

record StopTimeUpdate =
  stopSequence :: "int option"
  stu_stopId :: "string option"
  arrival :: "StopTimeEvent option"
  departure :: "StopTimeEvent option"
  stu_scheduleRelationship :: "StopTimeScheduleRelationship option"

datatype TripScheduleRelationship =
  TRIP_SCHEDULED | ADDED | TRIP_UNSCHEDULED | CANCELED | REPLACEMENT | DUPLICATED | DELETED

record TripDescriptor =
  td_tripId :: "string option"
  td_startDate :: "string option"
  td_scheduleRelationship :: "TripScheduleRelationship option"

record TripUpdate =
  tu_trip :: TripDescriptor
  tu_stopTimeUpdate :: "StopTimeUpdate list"

record FeedEntity =
  fe_tripUpdate :: "TripUpdate option"

text \<open>
  A JavaScript \<open>Date\<close> object: \<open>ref\<close> is the identity of the object (one per
  \<open>new Date(...)\<close>), \<open>getTime\<close> its time value (\<open>NaN\<close> when invalid). The operator
  \<open>===\<close> on two objects compares identities, never time values.
\<close>

record Date =
  ref :: nat
  getTime :: timeValue

definition strictEquals :: "Date \<Rightarrow> Date \<Rightarrow> bool" where
  "strictEquals a b = (ref a = ref b)"

text \<open>
  \<open>TripStop\<close> (feed-provider.interface.ts) carries \<open>Date\<close>s; \<open>ScheduleTrip\<close>
  (schedule.service.ts) has the same fields with the two times as numbers (epoch seconds).
\<close>

record 'd TripStopOf =
  tripId :: string
  trip_stopId :: string
  trip_routeId :: string
  routeName :: string
  routeColor :: "string option"
  stopName :: string
  headsign :: string
  arrivalTime :: 'd
  departureTime :: 'd
  isRealtime :: bool

type_synonym TripStop = "Date TripStopOf"

type_synonym ScheduleTrip = "number TripStopOf"

record RouteAtStop =
  routeId :: string
  stopId :: string

record RouteAtStopWithOffset = RouteAtStop +
  offset :: int

datatype error =
  BadRequestException string
  | TypeError
  | UpstreamError string

record FetchConfig =
  url :: string
  headers :: "(string \<times> string) list"

datatype RtTripUpdates = OneConfig FetchConfig | ConfigArray "FetchConfig list"

record GtfsConfig =
  static_config :: FetchConfig
  rtTripUpdates :: "RtTripUpdates option"

text \<open>
  What \<open>parseCacheControl\<close> returns for a response's \<open>cache-control\<close> header, as far as
  the provider reads it: a numeric \<open>max-age\<close> directive and the \<open>no-cache\<close> flag.
\<close>

record CacheControl =
  max_age :: "int option"
  no_cache :: bool

text \<open>
  One real-time endpoint's answer: the parsed header (\<open>None\<close> when the header is missing
  or empty) and the decoded entities (\<open>Inl\<close> when \<open>FeedMessage.decode\<close> throws).
\<close>

record RtResponse =
  cache_control :: "CacheControl option"
  decoded :: "error + FeedEntity list"

text \<open>What a compute function handed to \<open>cached\<close> resolves to: \<open>T | { value: T; ttl: number }\<close>.\<close>

datatype 'a computed = Plain 'a | WithTtl 'a int

text \<open>The cache manager's store: the value and the ttl it was set with.\<close>

type_synonym 'a cache = "string \<rightharpoonup> ('a \<times> int option)"

text \<open>
  The provider instance together with its collaborators: \<open>axios.get\<close> on a real-time
  endpoint and the timetable query \<open>getScheduleForRouteAtStop\<close> (route, stop, day offset),
  both of which may throw.
\<close>

record GtfsService =
  feedCode :: string
  config :: GtfsConfig
  httpGet :: "FetchConfig \<Rightarrow> error + RtResponse"
  getScheduleForRouteAtStop :: "string \<Rightarrow> string \<Rightarrow> int \<Rightarrow> error + TripStopRaw list"

text \<open>The object literal returned by \<open>resolveTripTimes\<close>, with the time values of its dates.\<close>

record ResolvedTimes =
  res_departureTime :: timeValue
  res_arrivalTime :: timeValue
  res_isRealtime :: bool

section \<open>Strings\<close>

text \<open>
  A string is a list of code units below 256 (\<open>char\<close>); strings with other code units are
  not inputs of the model. Of ECMAScript's \<open>WhiteSpace\<close> and \<open>LineTerminator\<close>, the code
  units below 256 are TAB, LF, VT, FF, CR, SP and NBSP, and \<open>trim\<close> strips exactly those.
\<close>

definition isWhiteSpace :: "char \<Rightarrow> bool" where
  "isWhiteSpace c =
     (c \<in> set [CHR '' '', CHR 0x09, CHR 0x0A, CHR 0x0B, CHR 0x0C, CHR 0x0D, CHR 0xA0])"

definition trim :: "string \<Rightarrow> string" where
  "trim s = rev (dropWhile isWhiteSpace (rev (dropWhile isWhiteSpace s)))"

definition startsWith :: "string \<Rightarrow> string \<Rightarrow> bool" where
  "startsWith str substr = (take (length substr) str = substr)"

fun removeFromStart :: "string \<Rightarrow> string list \<Rightarrow> string" where
  "removeFromStart str [] = str"
| "removeFromStart str (substr # substrs) =
     (if startsWith str substr then trim (drop (length substr) str)
      else removeFromStart str substrs)"

definition removeRouteNameFromHeadsign :: "string option \<Rightarrow> string \<Rightarrow> string" where
  "removeRouteNameFromHeadsign routeShortName hs =
     (case routeShortName of
        None \<Rightarrow> trim hs
      | Some n \<Rightarrow>
          if n = [] then trim hs
          else if hs = [] then []
          else removeFromStart (trim hs) [n @ '' '', n @ '' - '', n @ '': ''])"

section \<open>Time resolution (resolveTripTimes)\<close>

text \<open>
  \<open>TimeClip\<close>: a time beyond 8.64e15 ms in magnitude gives \<open>NaN\<close>, any other is cut to an
  integer, towards zero.
\<close>

definition timeClip :: "rat \<Rightarrow> timeValue" where
  "timeClip v =
     (if \<bar>v\<bar> > 8640000000000000 then None
      else Some (if v < 0 then \<lceil>v\<rceil> else \<lfloor>v\<rfloor>))"

text \<open>\<open>new Date(v).getTime()\<close> for a number \<open>v\<close>.\<close>

definition newDate :: "number \<Rightarrow> timeValue" where
  "newDate v = (case v of None \<Rightarrow> None | Some x \<Rightarrow> timeClip x)"

text \<open>\<open>new Date(trip.arrival_time)\<close> and \<open>new Date(trip.departure_time)\<close>\<close>

definition scheduledArrivalTime :: "TripStopRaw \<Rightarrow> timeValue" where
  "scheduledArrivalTime trip = newDate (Some (of_int (arrival_time trip)))"

definition scheduledDepartureTime :: "TripStopRaw \<Rightarrow> timeValue" where
  "scheduledDepartureTime trip = newDate (Some (of_int (departure_time trip)))"

text \<open>Truthiness of an optional number: \<open>undefined\<close> and \<open>0\<close> are falsy.\<close>

definition truthy :: "int option \<Rightarrow> bool" where
  "truthy v = (case v of None \<Rightarrow> False | Some n \<Rightarrow> n \<noteq> 0)"

text \<open>\<open>stopTimeUpdate.arrival?.delay ?? stopTimeUpdate.departure?.delay\<close>\<close>

definition definedDelay :: "StopTimeUpdate \<Rightarrow> int option" where
  "definedDelay u =
     (case (case arrival u of None \<Rightarrow> None | Some a \<Rightarrow> delay a) of
        Some d \<Rightarrow> Some d
      | None \<Rightarrow> (case departure u of None \<Rightarrow> None | Some e \<Rightarrow> delay e))"

text \<open>\<open>time - new Date(trip[`${key}_time`]).getTime() / 1000\<close>, for a numeric \<open>time\<close>.\<close>

definition secondsAfter :: "timeValue \<Rightarrow> int \<Rightarrow> number" where
  "secondsAfter scheduled t = nanOp (\<lambda>x ms. x - of_int ms / 1000) (Some (of_int t)) scheduled"

text \<open>
  The loop \<open>for (const key of ["arrival", "departure"])\<close>, started from \<open>delay = 0\<close>: each
  side that carries a numeric \<open>time\<close> overwrites the delay, the departure side last.
\<close>

definition inferDelay :: "TripStopRaw \<Rightarrow> StopTimeUpdate \<Rightarrow> number" where
  "inferDelay trip u =
     (let d0 = Some 0;
          d1 = (case (case arrival u of None \<Rightarrow> None | Some a \<Rightarrow> time a) of
                  None \<Rightarrow> d0
                | Some t \<Rightarrow> secondsAfter (scheduledArrivalTime trip) t);
          d2 = (case (case departure u of None \<Rightarrow> None | Some e \<Rightarrow> time e) of
                  None \<Rightarrow> d1
                | Some t \<Rightarrow> secondsAfter (scheduledDepartureTime trip) t)
      in d2)"

text \<open>Lines 526-550: the single \<open>delay\<close>, in seconds.\<close>

definition resolveDelay :: "TripStopRaw \<Rightarrow> StopTimeUpdate option \<Rightarrow> number" where
  "resolveDelay trip stopTimeUpdate =
     (case stopTimeUpdate of
        None \<Rightarrow> Some 0
      | Some u \<Rightarrow>
          (let hasAnyUpdate = (arrival u \<noteq> None \<or> departure u \<noteq> None);
               hasOnlyOneUpdate = (arrival u = None \<or> departure u = None)
           in if hasAnyUpdate \<and> hasOnlyOneUpdate
              then (case definedDelay u of
                      Some d \<Rightarrow> if d \<noteq> 0 then Some (of_int d) else inferDelay trip u
                    | None \<Rightarrow> inferDelay trip u)
              else Some 0))"

text \<open>\<open>stopTimeUpdate?.departure?.time\<close> and \<open>stopTimeUpdate?.arrival?.time\<close>\<close>

definition departureUpdateTime :: "StopTimeUpdate option \<Rightarrow> int option" where
  "departureUpdateTime stopTimeUpdate =
     (case stopTimeUpdate of None \<Rightarrow> None
      | Some u \<Rightarrow> (case departure u of None \<Rightarrow> None | Some e \<Rightarrow> time e))"

definition arrivalUpdateTime :: "StopTimeUpdate option \<Rightarrow> int option" where
  "arrivalUpdateTime stopTimeUpdate =
     (case stopTimeUpdate of None \<Rightarrow> None
      | Some u \<Rightarrow> (case arrival u of None \<Rightarrow> None | Some a \<Rightarrow> time a))"

text \<open>\<open>new Date(scheduled.getTime() + delay * 1000)\<close>\<close>

definition delayed :: "timeValue \<Rightarrow> number \<Rightarrow> timeValue" where
  "delayed scheduled d = newDate (nanOp (\<lambda>ms x. of_int ms + x * 1000) scheduled d)"

text \<open>Lines 552-558: the two \<open>Date\<close>s as first constructed (departure, arrival).\<close>

definition effectiveDeparture :: "TripStopRaw \<Rightarrow> StopTimeUpdate option \<Rightarrow> timeValue" where
  "effectiveDeparture trip stopTimeUpdate =
     (if truthy (departureUpdateTime stopTimeUpdate)
      then (case departureUpdateTime stopTimeUpdate of
              Some t \<Rightarrow> newDate (Some (of_int t * 1000)) | None \<Rightarrow> None)
      else delayed (scheduledDepartureTime trip) (resolveDelay trip stopTimeUpdate))"

definition effectiveArrival :: "TripStopRaw \<Rightarrow> StopTimeUpdate option \<Rightarrow> timeValue" where
  "effectiveArrival trip stopTimeUpdate =
     (if truthy (arrivalUpdateTime stopTimeUpdate)
      then (case arrivalUpdateTime stopTimeUpdate of
              Some t \<Rightarrow> newDate (Some (of_int t * 1000)) | None \<Rightarrow> None)
      else delayed (scheduledArrivalTime trip) (resolveDelay trip stopTimeUpdate))"

text \<open>
  Lines 560-562: \<open>if (arrivalTime > departureTime) departureTime.setTime(arrivalTime.getTime())\<close>.
  The pair is (arrival, departure) after that statement; the comparison is false when
  one of the dates is invalid.
\<close>

definition adjustedTimes :: "TripStopRaw \<Rightarrow> StopTimeUpdate option \<Rightarrow> timeValue \<times> timeValue" where
  "adjustedTimes trip stopTimeUpdate =
     (let departureT = effectiveDeparture trip stopTimeUpdate;
          arrivalT = effectiveArrival trip stopTimeUpdate
      in if numLess departureT arrivalT then (arrivalT, arrivalT)
         else (arrivalT, departureT))"

text \<open>
  Lines 564-567: \<open>Math.max(Math.abs(departure - scheduledDeparture), Math.abs(arrival -
  scheduledArrival))\<close>, which is \<open>NaN\<close> as soon as one of the four dates is invalid.
\<close>

definition maximumDeviationFromSchedule :: "TripStopRaw \<Rightarrow> StopTimeUpdate option \<Rightarrow> int option" where
  "maximumDeviationFromSchedule trip stopTimeUpdate =
     (case adjustedTimes trip stopTimeUpdate of
        (arrivalT, departureT) \<Rightarrow>
          nanOp max
            (nanOp (\<lambda>x y. \<bar>x - y\<bar>) departureT (scheduledDepartureTime trip))
            (nanOp (\<lambda>x y. \<bar>x - y\<bar>) arrivalT (scheduledArrivalTime trip)))"

definition ninetyMinutes :: int where
  "ninetyMinutes = 5400000"

definition resolveTripTimes :: "TripStopRaw \<Rightarrow> StopTimeUpdate option \<Rightarrow> ResolvedTimes" where
  "resolveTripTimes trip stopTimeUpdate =
     (case adjustedTimes trip stopTimeUpdate of
        (arrivalT, departureT) \<Rightarrow>
          if numLess (Some ninetyMinutes) (maximumDeviationFromSchedule trip stopTimeUpdate)
          then \<lparr>res_departureTime = scheduledDepartureTime trip,
                res_arrivalTime = scheduledArrivalTime trip,
                res_isRealtime = False\<rparr>
          else \<lparr>res_departureTime = departureT,
                res_arrivalTime = arrivalT,
                res_isRealtime = (stopTimeUpdate \<noteq> None)\<rparr>)"

section \<open>Cached fetch wrapper and real-time update fetcher\<close>

text \<open>
  \<open>cached(key, fn, ttl)\<close>: \<open>fn\<close> is run only on a miss; when it throws, nothing is
  stored and the error propagates. Expiry of entries is the cache manager's business and
  is not modelled: an entry that was stored is a hit.
\<close>

definition cached ::
  "string \<Rightarrow> string \<Rightarrow> (error + 'a computed) \<Rightarrow> int option \<Rightarrow> 'a cache
     \<Rightarrow> (error + 'a) \<times> 'a cache" where
  "cached code key fn ttl store =
     (let cacheKey = code @ ''-'' @ key
      in case store cacheKey of
           Some (v, _) \<Rightarrow> (Inr v, store)
         | None \<Rightarrow>
             (case fn of
                Inl e \<Rightarrow> (Inl e, store)
              | Inr (WithTtl v t) \<Rightarrow>
                  (Inr v, if t > 0 then store(cacheKey \<mapsto> (v, Some t)) else store)
              | Inr (Plain v) \<Rightarrow> (Inr v, store(cacheKey \<mapsto> (v, ttl)))))"

text \<open>\<open>Promise.all\<close>: all results in order, or a rejection (here the first in list order).\<close>

fun promiseAll :: "(error + 'a) list \<Rightarrow> error + 'a list" where
  "promiseAll [] = Inr []"
| "promiseAll (Inl e # ps) = Inl e"
| "promiseAll (Inr x # ps) = (case promiseAll ps of Inl e \<Rightarrow> Inl e | Inr xs \<Rightarrow> Inr (x # xs))"

definition fetchConfigs :: "RtTripUpdates \<Rightarrow> FetchConfig list" where
  "fetchConfigs rt = (case rt of ConfigArray cs \<Rightarrow> cs | OneConfig c \<Rightarrow> [c])"

text \<open>
  The header handling inside one fetch callback (lines 469-478): a numeric \<open>max-age\<close>
  raises the shared \<open>maxAge\<close> to at least that value, otherwise \<open>no-cache\<close> raises it
  to at least 0.
\<close>

definition updateMaxAge :: "int \<Rightarrow> CacheControl option \<Rightarrow> int" where
  "updateMaxAge maxAge header =
     (case header of
        None \<Rightarrow> maxAge
      | Some directives \<Rightarrow>
          (case max_age directives of
             Some m \<Rightarrow> max maxAge m
           | None \<Rightarrow> if no_cache directives then max maxAge 0 else maxAge))"

text \<open>
  The ttl of the returned \<open>{ value, ttl }\<close>, from the responses' headers:
  \<open>let maxAge = -1\<close>, updated by every callback, then
  \<open>maxAge >= 0 ? maxAge * 1000 : 15_000\<close>.
\<close>

definition tripUpdatesTtl :: "CacheControl option list \<Rightarrow> int" where
  "tripUpdatesTtl hdrs =
     (let maxAge = foldl updateMaxAge (- 1) hdrs
      in if maxAge \<ge> 0 then maxAge * 1000 else 15000)"

text \<open>One callback of \<open>fetchConfigs.map\<close>: the request, then the header, then decoding.\<close>

definition fetchOne ::
  "(FetchConfig \<Rightarrow> error + RtResponse) \<Rightarrow> FetchConfig
     \<Rightarrow> error + (CacheControl option \<times> FeedEntity list)" where
  "fetchOne get c =
     (case get c of
        Inl e \<Rightarrow> Inl e
      | Inr resp \<Rightarrow>
          (case decoded resp of
             Inl e \<Rightarrow> Inl e
           | Inr entities \<Rightarrow> Inr (cache_control resp, entities)))"

text \<open>The compute function passed to \<open>cached("tripUpdates", ...)\<close> (lines 452-493).\<close>

definition fetchTripUpdates ::
  "(FetchConfig \<Rightarrow> error + RtResponse) \<Rightarrow> FetchConfig list
     \<Rightarrow> error + FeedEntity list computed" where
  "fetchTripUpdates get cs =
     (case promiseAll (map (fetchOne get) cs) of
        Inl e \<Rightarrow> Inl e
      | Inr responses \<Rightarrow>
          Inr (WithTtl (concat (map snd responses)) (tripUpdatesTtl (map fst responses))))"

text \<open>The loop of lines 500-514 over the entities, writing into the lookup object.\<close>

definition addTripUpdate ::
  "string list \<Rightarrow> (string \<rightharpoonup> TripUpdate) \<Rightarrow> FeedEntity \<Rightarrow> (string \<rightharpoonup> TripUpdate)" where
  "addTripUpdate tripIds filtered entity =
     (case fe_tripUpdate entity of
        None \<Rightarrow> filtered
      | Some tu \<Rightarrow>
          (case td_tripId (tu_trip tu) of
             None \<Rightarrow> filtered
           | Some tid \<Rightarrow>
               if tid \<noteq> [] \<and> tid \<in> set tripIds
               then (let key = (case td_startDate (tu_trip tu) of
                                  None \<Rightarrow> tid
                                | Some d \<Rightarrow> if d \<noteq> [] then tid @ ''_'' @ d else tid)
                     in filtered(key \<mapsto> tu))
               else filtered))"

text \<open>
  \<open>getTripUpdates\<close>: nothing is fetched when \<open>rtTripUpdates\<close> is not configured. The
  cached value is always the array of entities, so the guard on its iterator never
  returns early, and a rejection of \<open>cached\<close> rejects the call.
\<close>

definition getTripUpdates ::
  "GtfsService \<Rightarrow> string list \<Rightarrow> FeedEntity list cache
     \<Rightarrow> (error + (string \<rightharpoonup> TripUpdate)) \<times> FeedEntity list cache" where
  "getTripUpdates self tripIds store =
     (case rtTripUpdates (config self) of
        None \<Rightarrow> (Inr Map.empty, store)
      | Some rt \<Rightarrow>
          (case cached (feedCode self) ''tripUpdates''
                  (fetchTripUpdates (httpGet self) (fetchConfigs rt)) None store of
             (Inl e, store') \<Rightarrow> (Inl e, store')
           | (Inr allFeedEntities, store') \<Rightarrow>
               (Inr (foldl (addTripUpdate tripIds) Map.empty allFeedEntities), store')))"

section \<open>Reconciliation (getUpcomingTripsForRoutesAtStops)\<close>

text \<open>\<open>tripUpdates[`${trip.trip_id}_${trip.start_date}`] ?? tripUpdates[trip.trip_id]\<close>\<close>

definition lookupTripUpdate :: "(string \<rightharpoonup> TripUpdate) \<Rightarrow> TripStopRaw \<Rightarrow> TripUpdate option" where
  "lookupTripUpdate tripUpdates trip =
     (case tripUpdates (trip_id trip @ ''_'' @ start_date trip) of
        Some tu \<Rightarrow> Some tu
      | None \<Rightarrow> tripUpdates (trip_id trip))"

definition findStopTimeUpdate :: "TripUpdate option \<Rightarrow> TripStopRaw \<Rightarrow> StopTimeUpdate option" where
  "findStopTimeUpdate tripUpdate trip =
     (case tripUpdate of
        None \<Rightarrow> None
      | Some tu \<Rightarrow>
          List.find (\<lambda>update. stopSequence update = Some (stop_sequence trip)
                              \<or> stu_stopId update = Some (stop_id trip))
            (tu_stopTimeUpdate tu))"

text \<open>
  One call of \<open>resolveTripTimes\<close> constructs four \<open>Date\<close> objects, in this order: the
  scheduled arrival, the scheduled departure, the departure and the arrival. It returns
  the first two when the deviation exceeds ninety minutes and the last two otherwise.
  \<open>n\<close> is the number of objects constructed so far; the pair is (arrival, departure).
\<close>

definition resolvedDates :: "nat \<Rightarrow> TripStopRaw \<Rightarrow> StopTimeUpdate option \<Rightarrow> Date \<times> Date" where
  "resolvedDates n trip stopTimeUpdate =
     (let r = resolveTripTimes trip stopTimeUpdate
      in if numLess (Some ninetyMinutes) (maximumDeviationFromSchedule trip stopTimeUpdate)
         then (\<lparr>ref = n, getTime = res_arrivalTime r\<rparr>,
               \<lparr>ref = n + 1, getTime = res_departureTime r\<rparr>)
         else (\<lparr>ref = n + 3, getTime = res_arrivalTime r\<rparr>,
               \<lparr>ref = n + 2, getTime = res_departureTime r\<rparr>))"

text \<open>
  \<open>Math.min(Math.abs(arrivalTime.getTime() - now), Math.abs(departureTime.getTime() -
  now)) < 14400000\<close>
\<close>

definition tripIsFeasiblyActive :: "int \<Rightarrow> Date \<Rightarrow> Date \<Rightarrow> bool" where
  "tripIsFeasiblyActive now arrivalD departureD =
     numLess
       (nanOp min (nanOp (\<lambda>x y. \<bar>x - y\<bar>) (getTime arrivalD) (Some now))
                  (nanOp (\<lambda>x y. \<bar>x - y\<bar>) (getTime departureD) (Some now)))
       (Some 14400000)"

text \<open>\<open>tripUpdate?.trip?.startDate === trip.start_date\<close>\<close>

definition sameStartDate :: "TripUpdate option \<Rightarrow> TripStopRaw \<Rightarrow> bool" where
  "sameStartDate tripUpdate trip =
     (case tripUpdate of
        None \<Rightarrow> False
      | Some tu \<Rightarrow> td_startDate (tu_trip tu) = Some (start_date trip))"

definition isCanceled :: "TripUpdate option \<Rightarrow> bool" where
  "isCanceled tripUpdate =
     (case tripUpdate of
        None \<Rightarrow> False
      | Some tu \<Rightarrow> td_scheduleRelationship (tu_trip tu) = Some CANCELED)"

definition isSkipped :: "StopTimeUpdate option \<Rightarrow> bool" where
  "isSkipped stopTimeUpdate =
     (case stopTimeUpdate of
        None \<Rightarrow> False
      | Some u \<Rightarrow> stu_scheduleRelationship u = Some SKIPPED)"

text \<open>
  What the \<open>forEach\<close> callback does with one occurrence: one constructor per \<open>return\<close>
  statement, in the order of the source, and \<open>Pushed\<close> for the \<open>tripStops.push\<close>.
\<close>

datatype TripOutcome =
  DepartedAlready
  | TripCanceled
  | StopSkipped
  | DuplicateTrip
  | Pushed TripStop

definition tripOutcome ::
  "int \<Rightarrow> (string \<rightharpoonup> TripUpdate) \<Rightarrow> TripStop list \<Rightarrow> nat \<Rightarrow> TripStopRaw \<Rightarrow> TripOutcome" where
  "tripOutcome now tripUpdates acc n trip =
     (let tripUpdate = lookupTripUpdate tripUpdates trip;
          stopTimeUpdate = findStopTimeUpdate tripUpdate trip;
          arrivalD = fst (resolvedDates n trip stopTimeUpdate);
          departureD = snd (resolvedDates n trip stopTimeUpdate);
          applies = (tripIsFeasiblyActive now arrivalD departureD \<or> sameStartDate tripUpdate trip)
      in if numLess (getTime departureD) (Some now) then DepartedAlready
         else if applies \<and> isCanceled tripUpdate then TripCanceled
         else if applies \<and> isSkipped stopTimeUpdate then StopSkipped
         else if list_ex (\<lambda>ts. tripId ts = trip_id trip
                               \<and> strictEquals (arrivalTime ts) arrivalD
                               \<and> strictEquals (departureTime ts) departureD) acc
              then DuplicateTrip
         else Pushed \<lparr>tripId = trip_id trip,
                      trip_stopId = stop_id trip,
                      trip_routeId = route_id trip,
                      routeName = route_name trip,
                      routeColor = map_option (filter (\<lambda>c. c \<noteq> CHR ''#'')) (route_color trip),
                      stopName = stop_name trip,
                      headsign = removeRouteNameFromHeadsign (Some (route_name trip)) (stop_headsign trip),
                      arrivalTime = arrivalD,
                      departureTime = departureD,
                      isRealtime = res_isRealtime (resolveTripTimes trip stopTimeUpdate)\<rparr>)"

text \<open>The state of the scan: the \<open>tripStops\<close> array and the number of \<open>Date\<close>s constructed.\<close>

record ScanState =
  tripStops :: "TripStop list"
  nextRef :: nat

definition processTrip ::
  "int \<Rightarrow> (string \<rightharpoonup> TripUpdate) \<Rightarrow> ScanState \<Rightarrow> TripStopRaw \<Rightarrow> ScanState" where
  "processTrip now tripUpdates st trip =
     (case tripOutcome now tripUpdates (tripStops st) (nextRef st) trip of
        Pushed ts \<Rightarrow> \<lparr>tripStops = tripStops st @ [ts], nextRef = nextRef st + 4\<rparr>
      | _ \<Rightarrow> st\<lparr>nextRef := nextRef st + 4\<rparr>)"

text \<open>
  The body of \<open>for (const scheduleDate of scheduleDates)\<close>: a rejected timetable query
  rejects the whole call; a rejected \<open>getTripUpdates\<close> is caught and leaves
  \<open>tripUpdates = {}\<close>.
\<close>

definition scanDay ::
  "GtfsService \<Rightarrow> int \<Rightarrow> 'a RouteAtStop_scheme list \<Rightarrow> ScanState \<times> FeedEntity list cache \<Rightarrow> int
     \<Rightarrow> error + ScanState \<times> FeedEntity list cache" where
  "scanDay self now rs s scheduleDate =
     (case promiseAll (map (\<lambda>r. getScheduleForRouteAtStop self (routeId r) (stopId r) scheduleDate) rs) of
        Inl e \<Rightarrow> Inl e
      | Inr results \<Rightarrow>
          (let rows = concat results;
               fetched = getTripUpdates self (map trip_id rows) (snd s);
               tripUpdates = (case fst fetched of Inl e \<Rightarrow> Map.empty | Inr m \<Rightarrow> m)
           in Inr (foldl (processTrip now tripUpdates) (fst s) rows, snd fetched)))"

fun scanDays ::
  "GtfsService \<Rightarrow> int \<Rightarrow> 'a RouteAtStop_scheme list \<Rightarrow> ScanState \<times> FeedEntity list cache \<Rightarrow> int list
     \<Rightarrow> error + ScanState \<times> FeedEntity list cache" where
  "scanDays self now rs s [] = Inr s"
| "scanDays self now rs s (d # ds) =
     (case scanDay self now rs s d of
        Inl e \<Rightarrow> Inl e
      | Inr s' \<Rightarrow> scanDays self now rs s' ds)"

definition scheduleDates :: "int list" where
  "scheduleDates = [- 1, 0, 1]"

definition getUpcomingTripsForRoutesAtStops ::
  "GtfsService \<Rightarrow> int \<Rightarrow> 'a RouteAtStop_scheme list \<Rightarrow> FeedEntity list cache \<Rightarrow> error + TripStop list" where
  "getUpcomingTripsForRoutesAtStops self now rs store =
     (case scanDays self now rs (\<lparr>tripStops = [], nextRef = 0\<rparr>, store) scheduleDates of
        Inl e \<Rightarrow> Inl e
      | Inr s \<Rightarrow> Inr (tripStops (fst s)))"

section \<open>Schedule aggregator (schedule.service.ts)\<close>

datatype ListMode = sequential | nextPerRoute


record ScheduleUpdate =
  trips :: "ScheduleTrip list"





definition pairKey :: "ScheduleTrip \<Rightarrow> string" where
  "pairKey t = trip_routeId t @ ''-'' @ trip_stopId t"



section \<open>Route-stop pair parsing (parseRouteStopPairs)\<close>

text \<open>\<open>String.prototype.split\<close> with a one-character separator.\<close>

fun splitOn :: "char \<Rightarrow> string \<Rightarrow> string list" where
  "splitOn sep [] = [[]]"
| "splitOn sep (c # cs) =
     (if c = sep then [] # splitOn sep cs
      else (case splitOn sep cs of [] \<Rightarrow> [[c]] | p # ps \<Rightarrow> (c # p) # ps))"

text \<open>
  \<open>parseInt(string)\<close> without a radix, as ECMAScript defines it: leading white space is
  skipped, a sign is read, a \<open>0x\<close>/\<open>0X\<close> prefix selects radix 16, and the longest prefix
  of digits is converted to the nearest double; whatever follows is ignored. \<open>None\<close> is
  \<open>NaN\<close>.
\<close>

definition digitValue :: "char \<Rightarrow> nat option" where
  "digitValue c =
     (let k = (of_char c :: nat)
      in if 48 \<le> k \<and> k \<le> 57 then Some (k - 48)
         else if 97 \<le> k \<and> k \<le> 122 then Some (k - 87)
         else if 65 \<le> k \<and> k \<le> 90 then Some (k - 55)
         else None)"

definition isRadixDigit :: "nat \<Rightarrow> char \<Rightarrow> bool" where
  "isRadixDigit radix c = (case digitValue c of None \<Rightarrow> False | Some v \<Rightarrow> v < radix)"

definition digitsToNat :: "nat \<Rightarrow> string \<Rightarrow> nat" where
  "digitsToNat radix ds =
     foldl (\<lambda>acc c. acc * radix + (case digitValue c of None \<Rightarrow> 0 | Some v \<Rightarrow> v)) 0 ds"

text \<open>The number of binary digits of a natural number.\<close>

fun bitLength :: "nat \<Rightarrow> nat" where
  "bitLength n = (if n = 0 then 0 else Suc (bitLength (n div 2)))"

text \<open>
  The double nearest to a natural number, ties to even: a number below \<open>2 ^ 53\<close> is
  exact, a larger one keeps its 53 leading binary digits, rounded. (A value that reaches
  \<open>2 ^ 1024\<close>, a decimal string of more than 308 digits, would be \<open>Infinity\<close>.)
\<close>

definition toDouble :: "nat \<Rightarrow> nat" where
  "toDouble n =
     (if n < 2 ^ 53 then n
      else (let e = bitLength n - 53;
                q = n div 2 ^ e;
                r = n mod 2 ^ e;
                half = 2 ^ (e - 1)
            in (if r > half \<or> (r = half \<and> odd q) then q + 1 else q) * 2 ^ e))"

definition parseInt :: "string \<Rightarrow> int option" where
  "parseInt input =
     (let s = dropWhile isWhiteSpace input;
          sign = (case s of c # _ \<Rightarrow> if c = CHR ''-'' then - 1 else 1 | [] \<Rightarrow> (1::int));
          s1 = (case s of c # rest \<Rightarrow> if c = CHR ''+'' \<or> c = CHR ''-'' then rest else s | [] \<Rightarrow> s);
          hex = (take 2 s1 = ''0x'' \<or> take 2 s1 = ''0X'');
          radix = (if hex then 16 else 10);
          s2 = (if hex then drop 2 s1 else s1);
          z = takeWhile (isRadixDigit radix) s2
      in if z = [] then None else Some (sign * int (toDouble (digitsToNat radix z))))"

text \<open>
  The object built from one destructured tuple \<open>[routeId, stopId, offset]\<close>: a missing
  component is \<open>undefined\<close> (\<open>None\<close>), and \<open>raw_offset\<close> is \<open>parseInt(offset ?? "0")\<close>.
\<close>

record RawPair =
  raw_routeId :: "string option"
  raw_stopId :: "string option"
  raw_offset :: "int option"

definition nthOpt :: "'a list \<Rightarrow> nat \<Rightarrow> 'a option" where
  "nthOpt xs i = (if i < length xs then Some (xs ! i) else None)"

definition toRawPair :: "string list \<Rightarrow> RawPair" where
  "toRawPair parts =
     \<lparr>raw_routeId = nthOpt parts 0,
      raw_stopId = nthOpt parts 1,
      raw_offset = parseInt (case nthOpt parts 2 of None \<Rightarrow> ''0'' | Some s \<Rightarrow> s)\<rparr>"

definition invalidPair :: error where
  "invalidPair = BadRequestException ''Invalid route-stop pair; must be in the format routeId,stopId[,offset]''"

definition invalidOffset :: error where
  "invalidOffset = BadRequestException ''Invalid offset; must be a number''"

text \<open>The validating loop; \<open>!pair.routeId\<close> holds for \<open>undefined\<close> and for the empty string.\<close>

fun checkPairs :: "RawPair list \<Rightarrow> error + RouteAtStopWithOffset list" where
  "checkPairs [] = Inr []"
| "checkPairs (p # ps) =
     (case (raw_routeId p, raw_stopId p) of
        (Some r, Some s) \<Rightarrow>
          if r = [] \<or> s = [] then Inl invalidPair
          else (case raw_offset p of
                  None \<Rightarrow> Inl invalidOffset
                | Some off \<Rightarrow>
                    (case checkPairs ps of
                       Inl e \<Rightarrow> Inl e
                     | Inr rest \<Rightarrow> Inr (\<lparr>routeId = r, stopId = s, offset = off\<rparr> # rest)))
      | _ \<Rightarrow> Inl invalidPair)"

definition parseRouteStopPairs :: "string \<Rightarrow> error + RouteAtStopWithOffset list" where
  "parseRouteStopPairs routeStopPairsRaw =
     checkPairs (map (\<lambda>pair. toRawPair (map trim (splitOn CHR '','' pair)))
                    (splitOn CHR '';'' routeStopPairsRaw))"

section \<open>Subscription pass (subscribeToSchedule, updateSchedule)\<close>

text \<open>A variable that holds an object, \<open>null\<close> or \<open>undefined\<close>.\<close>

datatype 'a js = Null | Undefined | Obj 'a

datatype ObserverCall = ObserverError error | ObserverNext "ScheduleUpdate js"

text \<open>The closure state of one subscription and the calls made on its observer so far.\<close>

record Subscription =
  currentSchedule :: "ScheduleUpdate js"
  observerCalls :: "ObserverCall list"

text \<open>
  One run of \<open>updateSchedule\<close>, given what \<open>getUpcomingTrips\<close> settled to. When it
  rejects, \<open>trips\<close> stays \<open>undefined\<close> and execution goes on after the \<open>catch\<close>.
  \<open>JSON.stringify\<close> is \<open>undefined\<close> on \<open>undefined\<close> and injective on snapshots, so the two
  texts differ exactly when the two values do.
\<close>

definition updateSchedule :: "error + ScheduleUpdate \<Rightarrow> Subscription \<Rightarrow> Subscription" where
  "updateSchedule pass sub =
     (let result = (case pass of Inl e \<Rightarrow> Undefined | Inr u \<Rightarrow> Obj u);
          calls = (case pass of
                     Inl e \<Rightarrow> observerCalls sub @ [ObserverError e]
                   | Inr u \<Rightarrow> observerCalls sub)
      in if currentSchedule sub = Null \<or> currentSchedule sub \<noteq> result
         then \<lparr>currentSchedule = result, observerCalls = calls @ [ObserverNext result]\<rparr>
         else sub\<lparr>observerCalls := calls\<rparr>)"

section \<open>The specification's reading of delay, effective times and cache lifetime\<close>

text \<open>
  Following the specification's words: an update "specifies a delay or time" on a side
  when that side's event carries one of the two; the single delay "prefers an explicit
  delay field", otherwise it is the update time minus the scheduled time of the side
  that carries an absolute time; with both sides or neither the delay is 0.
\<close>

definition spec_specifies :: "StopTimeEvent option \<Rightarrow> bool" where
  "spec_specifies ev =
     (case ev of None \<Rightarrow> False | Some e \<Rightarrow> delay e \<noteq> None \<or> time e \<noteq> None)"

definition spec_eventDelay :: "int \<Rightarrow> StopTimeEvent option \<Rightarrow> rat" where
  "spec_eventDelay scheduled ev =
     (case ev of
        None \<Rightarrow> 0
      | Some e \<Rightarrow>
          (case delay e of
             Some d \<Rightarrow> of_int d
           | None \<Rightarrow>
               (case time e of
                  Some t \<Rightarrow> of_int t - of_int scheduled / 1000
                | None \<Rightarrow> 0)))"

definition spec_delay :: "TripStopRaw \<Rightarrow> StopTimeUpdate \<Rightarrow> rat" where
  "spec_delay trip u =
     (if spec_specifies (arrival u) \<and> \<not> spec_specifies (departure u)
      then spec_eventDelay (arrival_time trip) (arrival u)
      else if spec_specifies (departure u) \<and> \<not> spec_specifies (arrival u)
      then spec_eventDelay (departure_time trip) (departure u)
      else 0)"

text \<open>
  Following the specification's words: "Effective departure = update's absolute
  departure time if given, else scheduledDeparture + delay", in milliseconds.
\<close>

definition spec_effectiveDeparture :: "TripStopRaw \<Rightarrow> StopTimeUpdate \<Rightarrow> rat" where
  "spec_effectiveDeparture trip u =
     (case departureUpdateTime (Some u) of
        Some t \<Rightarrow> of_int t * 1000
      | None \<Rightarrow> of_int (departure_time trip) + spec_delay trip u * 1000)"

text \<open>
  The freshness hint of one response, in seconds: its \<open>max-age\<close> when it has one,
  otherwise 0 when it says \<open>no-cache\<close>, otherwise none.
\<close>

definition freshnessHint :: "CacheControl option \<Rightarrow> int option" where
  "freshnessHint header =
     (case header of
        None \<Rightarrow> None
      | Some directives \<Rightarrow>
          (case max_age directives of
             Some m \<Rightarrow> Some m
           | None \<Rightarrow> if no_cache directives then Some 0 else None))"

definition freshnessHints :: "CacheControl option list \<Rightarrow> int list" where
  "freshnessHints hdrs = List.map_filter freshnessHint hdrs"

text \<open>
  Following the specification's words: the ttl is "the most restrictive freshness hint
  across all responses", that is the smallest one, and the fixed fallback when there is
  no hint.
\<close>

definition spec_mostRestrictiveTtl :: "CacheControl option list \<Rightarrow> int" where
  "spec_mostRestrictiveTtl hdrs =
     (case freshnessHints hdrs of
        [] \<Rightarrow> 15000
      | h # hs \<Rightarrow> foldl min h hs * 1000)"

section \<open>Auxiliary notions for the statements\<close>

text \<open>The same provider with no real-time source configured.\<close>

definition staticOnly :: "GtfsService \<Rightarrow> GtfsService" where
  "staticOnly self = self\<lparr>config := (config self)\<lparr>rtTripUpdates := None\<rparr>\<rparr>"

text \<open>Every \<open>Date\<close> held by the collected trip stops was constructed before the \<open>n\<close>-th one.\<close>

definition refsBelow :: "nat \<Rightarrow> TripStop list \<Rightarrow> bool" where
  "refsBelow n acc = (\<forall>ts\<in>set acc. ref (arrivalTime ts) < n \<and> ref (departureTime ts) < n)"

section \<open>Example inputs\<close>

text \<open>Trip STBA at stop STAGECOACH, 2008-01-04 14:00:00 UTC, as in the test feed.\<close>

definition stba :: TripStopRaw where
  "stba = \<lparr>trip_id = ''STBA'', stop_id = ''STAGECOACH'', route_id = ''STBA'',
           route_name = ''Stagecoach'', route_color = None, stop_name = ''Stagecoach Hotel'',
           stop_headsign = ''Shuttle'', stop_sequence = 1,
           arrival_time = 1199455200000, departure_time = 1199455200000,
           start_date = ''20080104''\<rparr>"

text \<open>The same occurrence with a scheduled arrival one minute after its departure.\<close>

definition stba_late_arrival :: TripStopRaw where
  "stba_late_arrival = stba\<lparr>arrival_time := 1199455260000\<rparr>"

definition stagecoach_arrival :: "StopTimeEvent \<Rightarrow> StopTimeUpdate" where
  "stagecoach_arrival ev =
     \<lparr>stopSequence = None, stu_stopId = Some ''STAGECOACH'', arrival = Some ev,
      departure = None, stu_scheduleRelationship = None\<rparr>"

text \<open>2008-01-04 13:30:00 UTC, the clock of the test suite.\<close>

definition half_past_one :: int where
  "half_past_one = 1199453400000"

text \<open>Two real-time endpoints: one answers \<open>no-cache\<close>, the other \<open>max-age=60\<close>.\<close>

definition two_feeds :: "CacheControl option list" where
  "two_feeds = [Some \<lparr>max_age = None, no_cache = True\<rparr>,
                Some \<lparr>max_age = Some 60, no_cache = False\<rparr>]"

text \<open>A subscription that has emitted one empty snapshot and remembers it.\<close>

definition running_subscription :: Subscription where
  "running_subscription =
     \<lparr>currentSchedule = Obj \<lparr>trips = []\<rparr>,
      observerCalls = [ObserverNext (Obj \<lparr>trips = []\<rparr>)]\<rparr>"

definition stagecoach_query :: RouteAtStop where
  "stagecoach_query = \<lparr>routeId = ''STBA'', stopId = ''STAGECOACH''\<rparr>"

definition rt_endpoint :: FetchConfig where
  "rt_endpoint = \<lparr>url = ''http://localhost/trip-updates.pb'', headers = []\<rparr>"

text \<open>A timetable in which STBA visits STAGECOACH once, on the current service day.\<close>

definition timetable :: "string \<Rightarrow> string \<Rightarrow> int \<Rightarrow> error + TripStopRaw list" where
  "timetable r s d = (if r = ''STBA'' \<and> s = ''STAGECOACH'' \<and> d = 0 then Inr [stba] else Inr [])"

definition static_service :: GtfsService where
  "static_service =
     \<lparr>feedCode = ''testfeed'',
      config = \<lparr>static_config = \<lparr>url = ''http://localhost/gtfs.zip'', headers = []\<rparr>,
                rtTripUpdates = None\<rparr>,
      httpGet = (\<lambda>c. Inl (UpstreamError ''connection refused'')),
      getScheduleForRouteAtStop = timetable\<rparr>"

text \<open>The same provider with one real-time endpoint, which refuses the connection.\<close>

definition unreachable_rt_service :: GtfsService where
  "unreachable_rt_service =
     static_service\<lparr>config := (config static_service)\<lparr>rtTripUpdates := Some (OneConfig rt_endpoint)\<rparr>\<rparr>"

text \<open>A cancellation of trip STBA that names no service date.\<close>

definition canceled_stba :: TripUpdate where
  "canceled_stba =
     \<lparr>tu_trip = \<lparr>td_tripId = Some ''STBA'', td_startDate = None,
                   td_scheduleRelationship = Some CANCELED\<rparr>,
      tu_stopTimeUpdate = []\<rparr>"

definition cancellations :: "string \<rightharpoonup> TripUpdate" where
  "cancellations = [''STBA'' \<mapsto> canceled_stba]"

text \<open>2008-01-04 19:00:00 UTC, five hours after the visit.\<close>

definition seven_pm :: int where
  "seven_pm = 1199473200000"

text \<open>A trip stop as the provider returns it, its two dates constructed as numbers \<open>n\<close> and \<open>n + 1\<close>.\<close>

definition visit :: "string \<Rightarrow> string \<Rightarrow> string \<Rightarrow> nat \<Rightarrow> int \<Rightarrow> TripStop" where
  "visit tid rid sid n ms =
     \<lparr>tripId = tid, trip_stopId = sid, trip_routeId = rid, routeName = rid, routeColor = None,
      stopName = sid, headsign = [], arrivalTime = \<lparr>ref = n + 1, getTime = Some ms\<rparr>,
      departureTime = \<lparr>ref = n, getTime = Some ms\<rparr>, isRealtime = False\<rparr>"



text \<open>A trip of a schedule update, arriving and departing at \<open>secs\<close>.\<close>

definition scheduled :: "string \<Rightarrow> string \<Rightarrow> string \<Rightarrow> rat \<Rightarrow> ScheduleTrip" where
  "scheduled tid rid sid secs =
     \<lparr>tripId = tid, trip_stopId = sid, trip_routeId = rid, routeName = rid, routeColor = None,
      stopName = sid, headsign = [], arrivalTime = Some secs, departureTime = Some secs,
      isRealtime = False\<rparr>"

section \<open>Properties of time resolution\<close>

lemma timeClip_of_int:
  "timeClip (of_int n) = (if \<bar>n\<bar> \<le> 8640000000000000 then Some n else None)"
proof -
  have "(\<bar>of_int n :: rat\<bar> > 8640000000000000) = (\<bar>n\<bar> > 8640000000000000)"
    by (metis of_int_abs of_int_less_iff of_int_numeral)
  then show ?thesis by (auto simp: timeClip_def)
qed

lemma newDate_seconds:
  "newDate (Some (of_int t * 1000)) = (if \<bar>t * 1000\<bar> \<le> 8640000000000000 then Some (t * 1000) else None)"
proof -
  have "(of_int t * 1000 :: rat) = of_int (t * 1000)" by simp
  then show ?thesis by (simp only: newDate_def option.case timeClip_of_int)
qed

lemmas resolve_defs = resolveTripTimes_def maximumDeviationFromSchedule_def adjustedTimes_def
  effectiveArrival_def effectiveDeparture_def arrivalUpdateTime_def departureUpdateTime_def
  truthy_def resolveDelay_def definedDelay_def inferDelay_def ninetyMinutes_def Let_def
  newDate_def timeClip_def scheduledArrivalTime_def scheduledDepartureTime_def
  secondsAfter_def delayed_def nanOp_def numLess_def

lemmas example_defs = stba_def stba_late_arrival_def stagecoach_arrival_def half_past_one_def

text \<open>
  After the statement \<open>if (arrivalTime > departureTime) departureTime.setTime(...)\<close> the
  arrival is not later than the departure.
\<close>

lemma adjustedTimes_ordered:
  "\<not> numLess (snd (adjustedTimes trip stu)) (fst (adjustedTimes trip stu))"
  by (simp add: adjustedTimes_def Let_def numLess_def split: option.splits)

text \<open>
  Whenever the result is not the raw schedule, it is the adjusted pair and its arrival is
  not later than its departure.
\<close>

lemma resolveTripTimes_ordered_when_confident:
  assumes "\<not> numLess (Some ninetyMinutes) (maximumDeviationFromSchedule trip stu)"
  shows "\<not> numLess (res_departureTime (resolveTripTimes trip stu))
                   (res_arrivalTime (resolveTripTimes trip stu))"
  using assms adjustedTimes_ordered [of trip stu]
  by (auto simp: resolveTripTimes_def split: prod.splits)

text \<open>
  C1 (arrivalTime \<open>\<le>\<close> departureTime for every result of \<open>resolveTripTimes\<close>, the
  low-confidence branch included). The code breaks this in the branch that returns the
  raw scheduled times: for an occurrence scheduled to arrive one minute after it departs
  and an update that delays the arrival by two hours, the deviation exceeds ninety
  minutes and the result is the schedule itself, arrival 14:01:00 after departure
  14:00:00.
\<close>

theorem resolveTripTimes_low_confidence_unordered:
  "resolveTripTimes stba_late_arrival (Some (stagecoach_arrival \<lparr>delay = Some 7200, time = None\<rparr>)) =
     \<lparr>res_departureTime = Some 1199455200000, res_arrivalTime = Some 1199455260000,
      res_isRealtime = False\<rparr>
   \<and> numLess
       (res_departureTime (resolveTripTimes stba_late_arrival
          (Some (stagecoach_arrival \<lparr>delay = Some 7200, time = None\<rparr>))))
       (res_arrivalTime (resolveTripTimes stba_late_arrival
          (Some (stagecoach_arrival \<lparr>delay = Some 7200, time = None\<rparr>))))"
  by (simp add: resolve_defs example_defs)

text \<open>
  The confidence filter on the code's own deviation: above ninety minutes the result is
  the schedule with \<open>isRealtime = false\<close>; otherwise, and also when the deviation is
  \<open>NaN\<close>, it is the adjusted times, with \<open>isRealtime\<close> exactly when a stop update was
  matched.
\<close>

lemma resolveTripTimes_by_deviation:
  "(case adjustedTimes trip stu of (arrivalT, departureT) \<Rightarrow>
      (case maximumDeviationFromSchedule trip stu of
         Some deviation \<Rightarrow>
           (deviation > 5400000 \<longrightarrow>
              resolveTripTimes trip stu =
                \<lparr>res_departureTime = scheduledDepartureTime trip,
                 res_arrivalTime = scheduledArrivalTime trip, res_isRealtime = False\<rparr>)
           \<and> (deviation \<le> 5400000 \<longrightarrow>
              resolveTripTimes trip stu =
                \<lparr>res_departureTime = departureT, res_arrivalTime = arrivalT,
                 res_isRealtime = (stu \<noteq> None)\<rparr>)
       | None \<Rightarrow>
           resolveTripTimes trip stu =
             \<lparr>res_departureTime = departureT, res_arrivalTime = arrivalT,
              res_isRealtime = (stu \<noteq> None)\<rparr>))"
  by (auto simp: resolveTripTimes_def ninetyMinutes_def numLess_def split: prod.splits option.splits)

text \<open>
  A matched update that changes nothing still gives \<open>isRealtime = true\<close>, and a delay of
  5401 seconds gives back the schedule.
\<close>

lemma resolveTripTimes_filter_examples:
  "resolveTripTimes stba (Some (stagecoach_arrival \<lparr>delay = None, time = None\<rparr>)) =
     \<lparr>res_departureTime = Some 1199455200000, res_arrivalTime = Some 1199455200000,
      res_isRealtime = True\<rparr>"
  "resolveTripTimes stba (Some (stagecoach_arrival \<lparr>delay = Some 5401, time = None\<rparr>)) =
     \<lparr>res_departureTime = Some 1199455200000, res_arrivalTime = Some 1199455200000,
      res_isRealtime = False\<rparr>"
  by (simp_all add: resolve_defs example_defs)

text \<open>
  C3 (a deviation of more than ninety minutes gives back the scheduled times with
  \<open>isRealtime = false\<close>). The code breaks this for an update time beyond the range of
  \<open>Date\<close>: the arrival time 9000000000000 is far more than ninety minutes from the
  schedule, but both adjusted dates are invalid, the deviation is \<open>NaN\<close>, the test
  \<open>maximumDeviationFromSchedule > ninetyMinutes\<close> is false, and the result is the two
  invalid dates with \<open>isRealtime = true\<close>.
\<close>

theorem resolveTripTimes_out_of_range_update:
  "5400000 < \<bar>9000000000000 * 1000 - arrival_time stba\<bar>
   \<and> maximumDeviationFromSchedule stba
        (Some (stagecoach_arrival \<lparr>delay = None, time = Some 9000000000000\<rparr>)) = None
   \<and> resolveTripTimes stba (Some (stagecoach_arrival \<lparr>delay = None, time = Some 9000000000000\<rparr>)) =
       \<lparr>res_departureTime = None, res_arrivalTime = None, res_isRealtime = True\<rparr>"
  by (simp add: resolve_defs example_defs)

text \<open>
  C6 as stated fails: the update gives the arrival an explicit delay of 0 together with an
  absolute time two minutes after the schedule. The explicit delay is not preferred: the
  code infers 120 seconds from the time and moves the departure by it, where the
  specification's delay is 0 and its departure stays at the schedule.
\<close>

theorem resolveDelay_zero_delay_counterexample:
  "resolveDelay stba (Some (stagecoach_arrival \<lparr>delay = Some 0, time = Some 1199455320\<rparr>)) = Some 120
   \<and> spec_delay stba (stagecoach_arrival \<lparr>delay = Some 0, time = Some 1199455320\<rparr>) = 0
   \<and> effectiveDeparture stba (Some (stagecoach_arrival \<lparr>delay = Some 0, time = Some 1199455320\<rparr>))
       = Some 1199455320000
   \<and> spec_effectiveDeparture stba (stagecoach_arrival \<lparr>delay = Some 0, time = Some 1199455320\<rparr>)
       = 1199455200000"
  by (simp add: resolve_defs example_defs spec_delay_def spec_eventDelay_def spec_specifies_def
        spec_effectiveDeparture_def)

text \<open>
  The delay inferred from an absolute time, and a scheduled date moved by a delay, when
  the dates involved are valid.
\<close>

lemma secondsAfter_valid:
  "secondsAfter (Some ms) t = Some (of_int t - of_int ms / 1000)"
  by (simp add: secondsAfter_def nanOp_def)

lemma delayed_valid:
  "delayed (Some ms) (Some d) = timeClip (of_int ms + d * 1000)"
  by (simp add: delayed_def nanOp_def newDate_def)

text \<open>
  C6, amended. When the update carries exactly one of the two events, the delay is that
  event's explicit delay if it is present and not 0; otherwise its absolute time minus
  the scheduled time of that side, if it has a time; otherwise 0. With both events or
  neither the delay is 0. The effective departure is the update's absolute departure
  time if that is present and not 0, else the scheduled departure plus the delay, and
  the same holds for the arrival. (A date beyond the range of \<open>Date\<close> is invalid, and a
  delay inferred from an invalid scheduled date is \<open>NaN\<close>.)
\<close>

theorem resolveDelay_and_effective_times:
  "(arrival u = Some a \<and> departure u = None \<longrightarrow>
      resolveDelay trip (Some u) =
        (case delay a of
           Some d \<Rightarrow>
             if d \<noteq> 0 then Some (of_int d)
             else (case time a of
                     Some t \<Rightarrow> secondsAfter (scheduledArrivalTime trip) t
                   | None \<Rightarrow> Some 0)
         | None \<Rightarrow>
             (case time a of
                Some t \<Rightarrow> secondsAfter (scheduledArrivalTime trip) t
              | None \<Rightarrow> Some 0)))
   \<and> (arrival u = None \<and> departure u = Some e \<longrightarrow>
      resolveDelay trip (Some u) =
        (case delay e of
           Some d \<Rightarrow>
             if d \<noteq> 0 then Some (of_int d)
             else (case time e of
                     Some t \<Rightarrow> secondsAfter (scheduledDepartureTime trip) t
                   | None \<Rightarrow> Some 0)
         | None \<Rightarrow>
             (case time e of
                Some t \<Rightarrow> secondsAfter (scheduledDepartureTime trip) t
              | None \<Rightarrow> Some 0)))
   \<and> ((arrival u = None) = (departure u = None) \<longrightarrow> resolveDelay trip (Some u) = Some 0)
   \<and> effectiveDeparture trip (Some u) =
        (case departureUpdateTime (Some u) of
           Some t \<Rightarrow>
             if t \<noteq> 0
             then (if \<bar>t * 1000\<bar> \<le> 8640000000000000 then Some (t * 1000) else None)
             else delayed (scheduledDepartureTime trip) (resolveDelay trip (Some u))
         | None \<Rightarrow> delayed (scheduledDepartureTime trip) (resolveDelay trip (Some u)))
   \<and> effectiveArrival trip (Some u) =
        (case arrivalUpdateTime (Some u) of
           Some t \<Rightarrow>
             if t \<noteq> 0
             then (if \<bar>t * 1000\<bar> \<le> 8640000000000000 then Some (t * 1000) else None)
             else delayed (scheduledArrivalTime trip) (resolveDelay trip (Some u))
         | None \<Rightarrow> delayed (scheduledArrivalTime trip) (resolveDelay trip (Some u)))"
proof (intro conjI impI)
  assume "arrival u = Some a \<and> departure u = None"
  then show "resolveDelay trip (Some u) =
        (case delay a of
           Some d \<Rightarrow>
             if d \<noteq> 0 then Some (of_int d)
             else (case time a of
                     Some t \<Rightarrow> secondsAfter (scheduledArrivalTime trip) t
                   | None \<Rightarrow> Some 0)
         | None \<Rightarrow>
             (case time a of
                Some t \<Rightarrow> secondsAfter (scheduledArrivalTime trip) t
              | None \<Rightarrow> Some 0))"
    by (simp add: resolveDelay_def definedDelay_def inferDelay_def split: option.splits)
next
  assume "arrival u = None \<and> departure u = Some e"
  then show "resolveDelay trip (Some u) =
        (case delay e of
           Some d \<Rightarrow>
             if d \<noteq> 0 then Some (of_int d)
             else (case time e of
                     Some t \<Rightarrow> secondsAfter (scheduledDepartureTime trip) t
                   | None \<Rightarrow> Some 0)
         | None \<Rightarrow>
             (case time e of
                Some t \<Rightarrow> secondsAfter (scheduledDepartureTime trip) t
              | None \<Rightarrow> Some 0))"
    by (simp add: resolveDelay_def definedDelay_def inferDelay_def split: option.splits)
next
  assume "(arrival u = None) = (departure u = None)"
  then show "resolveDelay trip (Some u) = Some 0"
    by (auto simp: resolveDelay_def)
next
  show "effectiveDeparture trip (Some u) =
        (case departureUpdateTime (Some u) of
           Some t \<Rightarrow>
             if t \<noteq> 0
             then (if \<bar>t * 1000\<bar> \<le> 8640000000000000 then Some (t * 1000) else None)
             else delayed (scheduledDepartureTime trip) (resolveDelay trip (Some u))
         | None \<Rightarrow> delayed (scheduledDepartureTime trip) (resolveDelay trip (Some u)))"
    by (simp add: effectiveDeparture_def truthy_def newDate_seconds split: option.splits)
next
  show "effectiveArrival trip (Some u) =
        (case arrivalUpdateTime (Some u) of
           Some t \<Rightarrow>
             if t \<noteq> 0
             then (if \<bar>t * 1000\<bar> \<le> 8640000000000000 then Some (t * 1000) else None)
             else delayed (scheduledArrivalTime trip) (resolveDelay trip (Some u))
         | None \<Rightarrow> delayed (scheduledArrivalTime trip) (resolveDelay trip (Some u)))"
    by (simp add: effectiveArrival_def truthy_def newDate_seconds split: option.splits)
qed

text \<open>
  C6, amended, at the update of the counterexample: the delay is the 120 seconds inferred
  from the arrival time, the arrival is the absolute time and the departure is the
  schedule moved by the delay.
\<close>

theorem resolveDelay_and_effective_times_witness:
  "resolveDelay stba (Some (stagecoach_arrival \<lparr>delay = Some 0, time = Some 1199455320\<rparr>)) = Some 120
   \<and> effectiveArrival stba (Some (stagecoach_arrival \<lparr>delay = Some 0, time = Some 1199455320\<rparr>))
       = Some 1199455320000
   \<and> effectiveDeparture stba (Some (stagecoach_arrival \<lparr>delay = Some 0, time = Some 1199455320\<rparr>))
       = Some 1199455320000"
  using resolveDelay_and_effective_times
          [of "stagecoach_arrival \<lparr>delay = Some 0, time = Some 1199455320\<rparr>"
              "\<lparr>delay = Some 0, time = Some 1199455320\<rparr>" stba]
  by (simp add: example_defs arrivalUpdateTime_def departureUpdateTime_def newDate_def timeClip_def
        scheduledArrivalTime_def scheduledDepartureTime_def secondsAfter_def delayed_def nanOp_def)

section \<open>Properties of the real-time fetch\<close>

lemma updateMaxAge_hint:
  "updateMaxAge a h = (case freshnessHint h of None \<Rightarrow> a | Some m \<Rightarrow> max a m)"
  by (simp add: updateMaxAge_def freshnessHint_def split: option.splits)

lemma freshnessHints_Cons:
  "freshnessHints (h # hs) =
     (case freshnessHint h of None \<Rightarrow> freshnessHints hs | Some m \<Rightarrow> m # freshnessHints hs)"
  by (simp add: freshnessHints_def map_filter_simps split: option.splits)

text \<open>The shared \<open>maxAge\<close> ends as the largest of its start value and all hints.\<close>

lemma foldl_updateMaxAge:
  "foldl updateMaxAge a hdrs = Max (insert a (set (freshnessHints hdrs)))"
proof (induction hdrs arbitrary: a)
  case Nil
  then show ?case by (simp add: freshnessHints_def map_filter_simps)
next
  case (Cons h hs)
  have step: "foldl updateMaxAge a (h # hs) =
      Max (insert (updateMaxAge a h) (set (freshnessHints hs)))"
    by (simp only: foldl.simps Cons.IH)
  show ?case
  proof (cases "freshnessHint h")
    case None
    then have "updateMaxAge a h = a" "freshnessHints (h # hs) = freshnessHints hs"
      by (simp_all add: updateMaxAge_hint freshnessHints_Cons)
    then show ?thesis using step by simp
  next
    case (Some m)
    then have u: "updateMaxAge a h = max a m"
      and f: "freshnessHints (h # hs) = m # freshnessHints hs"
      by (simp_all add: updateMaxAge_hint freshnessHints_Cons)
    have "Max (insert (max a m) (set (freshnessHints hs))) =
          Max (insert a (insert m (set (freshnessHints hs))))"
      by (cases "set (freshnessHints hs) = {}") (simp_all add: max.assoc)
    then show ?thesis using step by (simp add: u f)
  qed
qed

lemma tripUpdatesTtl_nonneg: "0 \<le> tripUpdatesTtl hdrs"
  by (simp add: tripUpdatesTtl_def Let_def)

text \<open>
  C5 as stated fails: with one endpoint answering \<open>no-cache\<close> and another
  \<open>max-age=60\<close>, the most restrictive hint is 0 and the no-cache hint should force the
  ttl to 0, but the code chooses 60000 ms.
\<close>

theorem tripUpdatesTtl_no_cache_counterexample:
  "tripUpdatesTtl two_feeds = 60000 \<and> spec_mostRestrictiveTtl two_feeds = 0"
  by (simp add: two_feeds_def tripUpdatesTtl_def updateMaxAge_def spec_mostRestrictiveTtl_def
        freshnessHints_def freshnessHint_def map_filter_simps)

text \<open>
  C5, amended. The ttl is 1000 times the largest freshness hint across all responses,
  where a response's hint is its max-age, or 0 for no-cache without max-age; when no
  response carries a non-negative hint it is 15000 ms. On a cache miss the entities are
  stored with that ttl, except that a ttl of 0 stores nothing.
\<close>

theorem tripUpdatesTtl_largest_hint:
  "tripUpdatesTtl hdrs =
     (if \<exists>m\<in>set (freshnessHints hdrs). 0 \<le> m
      then 1000 * Max (set (freshnessHints hdrs))
      else 15000)
   \<and> (store (code @ ''-'' @ key) = None \<longrightarrow>
        snd (cached code key (Inr (WithTtl v (tripUpdatesTtl hdrs))) dflt store) =
          (if tripUpdatesTtl hdrs = 0 then store
           else store(code @ ''-'' @ key \<mapsto> (v, Some (tripUpdatesTtl hdrs)))))"
proof
  let ?S = "set (freshnessHints hdrs)"
  show "tripUpdatesTtl hdrs = (if \<exists>m\<in>?S. 0 \<le> m then 1000 * Max ?S else 15000)"
  proof (cases "\<exists>m\<in>?S. 0 \<le> m")
    case True
    then obtain m where m: "m \<in> ?S" "0 \<le> m" by blast
    from m have ne: "?S \<noteq> {}" by auto
    have "m \<le> Max ?S" using m by simp
    then have pos: "0 \<le> Max ?S" using m by linarith
    have "Max (insert (- 1) ?S) = max (- 1) (Max ?S)"
      using ne by simp
    then have "Max (insert (- 1) ?S) = Max ?S" using pos by simp
    then show ?thesis using True pos
      by (simp add: tripUpdatesTtl_def foldl_updateMaxAge)
  next
    case False
    then have neg: "\<forall>m\<in>?S. m < 0" by auto
    have "Max (insert (- 1) ?S) < 0"
      using neg by (subst Max_less_iff) auto
    then have n: "\<not> 0 \<le> Max (insert (- 1) ?S)" by linarith
    have eq: "tripUpdatesTtl hdrs =
        (if 0 \<le> Max (insert (- 1) ?S) then Max (insert (- 1) ?S) * 1000 else 15000)"
      by (simp add: tripUpdatesTtl_def foldl_updateMaxAge Let_def)
    from n have "tripUpdatesTtl hdrs = 15000"
      unfolding eq by (rule if_not_P)
    then show ?thesis using False by simp
  qed
next
  show "store (code @ ''-'' @ key) = None \<longrightarrow>
        snd (cached code key (Inr (WithTtl v (tripUpdatesTtl hdrs))) dflt store) =
          (if tripUpdatesTtl hdrs = 0 then store
           else store(code @ ''-'' @ key \<mapsto> (v, Some (tripUpdatesTtl hdrs))))"
    using tripUpdatesTtl_nonneg [of hdrs]
    by (auto simp: cached_def Let_def)
qed

text \<open>
  C5, amended, at the two endpoints of the counterexample: the hints are 0 and 60, the
  ttl is 60000 ms and the (empty) entity list is stored with it.
\<close>

theorem tripUpdatesTtl_largest_hint_witness:
  "tripUpdatesTtl two_feeds = 60000
   \<and> snd (cached ''testfeed'' ''tripUpdates''
          (Inr (WithTtl ([] :: FeedEntity list) (tripUpdatesTtl two_feeds))) None Map.empty) =
       [''testfeed-tripUpdates'' \<mapsto> ([], Some 60000)]"
proof -
  have h: "freshnessHints two_feeds = [0, 60]"
    by (simp add: two_feeds_def freshnessHints_def freshnessHint_def map_filter_simps)
  note inst = tripUpdatesTtl_largest_hint
    [where hdrs = two_feeds and store = Map.empty and code = "''testfeed''"
       and key = "''tripUpdates''" and v = "[] :: FeedEntity list" and dflt = None]
  have t: "tripUpdatesTtl two_feeds = 60000"
    using inst by (simp add: h)
  show ?thesis
    using inst by (simp add: t)
qed

section \<open>Properties of route-stop pair parsing\<close>

lemmas parse_defs = parseRouteStopPairs_def toRawPair_def nthOpt_def parseInt_def trim_def
  isWhiteSpace_def digitValue_def isRadixDigit_def digitsToNat_def toDouble_def invalidPair_def
  invalidOffset_def Let_def

text \<open>Every accepted tuple has a non-empty route and a non-empty stop.\<close>

lemma checkPairs_nonempty:
  "checkPairs ps = Inr rs \<Longrightarrow> r \<in> set rs \<Longrightarrow> routeId r \<noteq> [] \<and> stopId r \<noteq> []"
  by (induction ps arbitrary: rs)
     (auto split: option.splits if_splits sum.splits)

text \<open>A tuple without a stop, and an offset that does not start with a digit, are rejected.\<close>

lemma parseRouteStopPairs_rejects:
  "parseRouteStopPairs ''STBA'' = Inl invalidPair"
  "parseRouteStopPairs ''STBA,STAGECOACH,abc'' = Inl invalidOffset"
  "parseRouteStopPairs ''STBA,STAGECOACH'' =
     Inr [\<lparr>routeId = ''STBA'', stopId = ''STAGECOACH'', offset = 0\<rparr>]"
  by (simp_all add: parse_defs)

text \<open>An integer beyond \<open>2 ^ 53\<close> is rounded to the nearest double.\<close>

lemma parseInt_rounds:
  "parseInt ''9007199254740993'' = Some 9007199254740992"
  by (simp add: parseInt_def isWhiteSpace_def digitValue_def isRadixDigit_def digitsToNat_def
        toDouble_def Let_def)

text \<open>
  C9 (every tuple whose offset component is non-numeric is rejected). The code accepts
  the offset \<open>12abc\<close>: \<open>parseInt\<close> converts the leading digits, the result is not
  \<open>NaN\<close>, and the tuple is returned with offset 12.
\<close>

theorem parseRouteStopPairs_accepts_trailing_garbage:
  "parseRouteStopPairs ''STBA,STAGECOACH,12abc'' =
     Inr [\<lparr>routeId = ''STBA'', stopId = ''STAGECOACH'', offset = 12\<rparr>]"
  by (simp add: parse_defs)

section \<open>Properties of the subscription pass\<close>

text \<open>
  C10 (a failing pass is not atomic). When the pass throws while the subscription
  remembers \<open>null\<close> or a snapshot, the error is signalled, the remembered value is
  overwritten with \<open>undefined\<close>, and \<open>observer.next(undefined)\<close> is attempted.
\<close>

theorem updateSchedule_on_error:
  "currentSchedule sub \<noteq> Undefined \<Longrightarrow>
   updateSchedule (Inl e) sub =
     \<lparr>currentSchedule = Undefined,
      observerCalls = observerCalls sub @ [ObserverError e, ObserverNext Undefined]\<rparr>"
  by (auto simp: updateSchedule_def Let_def)

text \<open>C10, for a subscription that remembers an emitted snapshot.\<close>

theorem updateSchedule_on_error_witness:
  "currentSchedule running_subscription \<noteq> Undefined
   \<and> updateSchedule (Inl (UpstreamError ''timetable store unreachable'')) running_subscription =
       \<lparr>currentSchedule = Undefined,
        observerCalls = [ObserverNext (Obj \<lparr>trips = []\<rparr>),
                         ObserverError (UpstreamError ''timetable store unreachable''),
                         ObserverNext Undefined]\<rparr>"
proof -
  have remembered: "currentSchedule running_subscription \<noteq> Undefined"
    by (simp add: running_subscription_def)
  show ?thesis
    using remembered updateSchedule_on_error [OF remembered, of "UpstreamError ''timetable store unreachable''"]
    by (simp add: running_subscription_def)
qed

text \<open>
  When \<open>undefined\<close> is already remembered (after an earlier failed pass), a failing pass
  only signals its error.
\<close>

lemma updateSchedule_on_repeated_error:
  "currentSchedule sub = Undefined \<Longrightarrow>
   updateSchedule (Inl e) sub = sub\<lparr>observerCalls := observerCalls sub @ [ObserverError e]\<rparr>"
  by (auto simp: updateSchedule_def Let_def)

section \<open>Properties of the reconciliation scan\<close>

lemmas scan_defs = getUpcomingTripsForRoutesAtStops_def scheduleDates_def scanDay_def processTrip_def
  tripOutcome_def resolvedDates_def lookupTripUpdate_def findStopTimeUpdate_def tripIsFeasiblyActive_def
  sameStartDate_def isCanceled_def isSkipped_def strictEquals_def getTripUpdates_def
  removeRouteNameFromHeadsign_def startsWith_def trim_def isWhiteSpace_def

lemma resolvedDates_times:
  "getTime (fst (resolvedDates n trip stu)) = res_arrivalTime (resolveTripTimes trip stu)"
  "getTime (snd (resolvedDates n trip stu)) = res_departureTime (resolveTripTimes trip stu)"
  by (simp_all add: resolvedDates_def Let_def)

text \<open>
  The duplicate test compares \<open>Date\<close> objects with \<open>===\<close>. The dates of an occurrence are
  constructed by its own call of \<open>resolveTripTimes\<close>, after every date already collected,
  so the test never succeeds.
\<close>

lemma resolvedDates_fresh:
  "n \<le> ref (fst (resolvedDates n trip stu))" "n \<le> ref (snd (resolvedDates n trip stu))"
  by (simp_all add: resolvedDates_def Let_def)

lemma tripOutcome_never_duplicate:
  assumes "refsBelow n acc"
  shows "tripOutcome now tripUpdates acc n trip \<noteq> DuplicateTrip"
proof -
  let ?stu = "findStopTimeUpdate (lookupTripUpdate tripUpdates trip) trip"
  have "\<not> list_ex (\<lambda>ts. tripId ts = trip_id trip
            \<and> strictEquals (arrivalTime ts) (fst (resolvedDates n trip ?stu))
            \<and> strictEquals (departureTime ts) (snd (resolvedDates n trip ?stu))) acc"
  proof
    assume "list_ex (\<lambda>ts. tripId ts = trip_id trip
            \<and> strictEquals (arrivalTime ts) (fst (resolvedDates n trip ?stu))
            \<and> strictEquals (departureTime ts) (snd (resolvedDates n trip ?stu))) acc"
    then obtain ts where "ts \<in> set acc"
      and "ref (arrivalTime ts) = ref (fst (resolvedDates n trip ?stu))"
      by (auto simp: list_ex_iff strictEquals_def)
    with assms resolvedDates_fresh(1) [of n trip ?stu] show False
      by (auto simp: refsBelow_def)
  qed
  then show ?thesis
    by (simp add: tripOutcome_def Let_def)
qed

lemma processTrip_refsBelow:
  assumes "refsBelow (nextRef st) (tripStops st)"
  shows "refsBelow (nextRef (processTrip now tripUpdates st trip))
                   (tripStops (processTrip now tripUpdates st trip))"
proof (cases "tripOutcome now tripUpdates (tripStops st) (nextRef st) trip")
  case (Pushed ts)
  then have "ref (arrivalTime ts) < nextRef st + 4 \<and> ref (departureTime ts) < nextRef st + 4"
    by (auto simp: tripOutcome_def resolvedDates_def Let_def split: if_splits)
  with Pushed assms show ?thesis
    by (auto simp: processTrip_def refsBelow_def)
qed (use assms in \<open>auto simp: processTrip_def refsBelow_def\<close>)

text \<open>
  C2 (the scan yields no two entries with the same trip and the same arrival and
  departure time values). The code fails this: asked for the same route-stop pair twice,
  the scan returns the 14:00 visit of STBA twice, with equal time values.
\<close>

theorem scan_keeps_duplicate_visits:
  "map (\<lambda>ts. (tripId ts, getTime (arrivalTime ts), getTime (departureTime ts)))
     (case getUpcomingTripsForRoutesAtStops static_service half_past_one
             [stagecoach_query, stagecoach_query] Map.empty of
        Inl e \<Rightarrow> [] | Inr ts \<Rightarrow> ts) =
   [(''STBA'', Some 1199455200000, Some 1199455200000),
    (''STBA'', Some 1199455200000, Some 1199455200000)]"
  by (simp add: scan_defs resolve_defs example_defs static_service_def stagecoach_query_def timetable_def)


text \<open>
  C4 as stated fails: at 19:00 the 14:00 visit of STBA, matched by a date-less
  cancellation, is dropped although it is neither within four hours of now nor named by
  the update's service date; it is dropped because it has already departed.
\<close>

theorem cancellation_gate_departed_counterexample:
  "lookupTripUpdate cancellations stba = Some canceled_stba
   \<and> td_scheduleRelationship (tu_trip canceled_stba) = Some CANCELED
   \<and> tripOutcome seven_pm cancellations [] 0 stba = DepartedAlready
   \<and> tripStops (processTrip seven_pm cancellations \<lparr>tripStops = [], nextRef = 0\<rparr> stba) = []
   \<and> res_arrivalTime (resolveTripTimes stba None) = Some 1199455200000
   \<and> res_departureTime (resolveTripTimes stba None) = Some 1199455200000
   \<and> \<not> (min \<bar>1199455200000 - seven_pm\<bar> \<bar>1199455200000 - seven_pm\<bar> < 14400000)
   \<and> td_startDate (tu_trip canceled_stba) \<noteq> Some (start_date stba)"
  by (simp add: scan_defs resolve_defs example_defs cancellations_def canceled_stba_def seven_pm_def)

text \<open>
  C4, amended. For an occurrence that has not already departed (resolved departure not
  before now) and whose matched trip update is CANCELED or whose matched stop update is
  SKIPPED: it is dropped as cancelled or skipped exactly when it is feasibly active
  (within four hours of now) or the update's service date equals the occurrence's. (An
  invalid departure date is not before now, and an occurrence with an invalid date is
  not feasibly active.)
\<close>

theorem cancellation_gate:
  assumes matched: "lookupTripUpdate tripUpdates trip = Some tu"
    and flagged: "td_scheduleRelationship (tu_trip tu) = Some CANCELED
                  \<or> (\<exists>u. findStopTimeUpdate (Some tu) trip = Some u
                          \<and> stu_scheduleRelationship u = Some SKIPPED)"
    and resolved: "r = resolveTripTimes trip (findStopTimeUpdate (Some tu) trip)"
    and not_departed: "(case res_departureTime r of Some d \<Rightarrow> now \<le> d | None \<Rightarrow> True)"
  shows "(tripOutcome now tripUpdates acc n trip = TripCanceled
          \<or> tripOutcome now tripUpdates acc n trip = StopSkipped)
         \<longleftrightarrow>
         ((case res_arrivalTime r of
             Some a \<Rightarrow>
               (case res_departureTime r of
                  Some d \<Rightarrow> min \<bar>a - now\<bar> \<bar>d - now\<bar> < 14400000
                | None \<Rightarrow> False)
           | None \<Rightarrow> False)
          \<or> td_startDate (tu_trip tu) = Some (start_date trip))"
proof -
  let ?stu = "findStopTimeUpdate (Some tu) trip"
  let ?applies = "tripIsFeasiblyActive now (fst (resolvedDates n trip ?stu)) (snd (resolvedDates n trip ?stu))
                  \<or> sameStartDate (Some tu) trip"
  have gate: "?applies \<longleftrightarrow>
      ((case res_arrivalTime r of
          Some a \<Rightarrow>
            (case res_departureTime r of
               Some d \<Rightarrow> min \<bar>a - now\<bar> \<bar>d - now\<bar> < 14400000
             | None \<Rightarrow> False)
        | None \<Rightarrow> False)
       \<or> td_startDate (tu_trip tu) = Some (start_date trip))"
    by (simp add: tripIsFeasiblyActive_def sameStartDate_def resolvedDates_times resolved
          nanOp_def numLess_def split: option.splits)
  have flag: "isCanceled (Some tu) \<or> isSkipped ?stu"
    using flagged by (auto simp: isCanceled_def isSkipped_def)
  have later: "\<not> numLess (getTime (snd (resolvedDates n trip ?stu))) (Some now)"
    using not_departed
    by (simp add: resolvedDates_times resolved numLess_def split: option.splits)
  have "(tripOutcome now tripUpdates acc n trip = TripCanceled
          \<or> tripOutcome now tripUpdates acc n trip = StopSkipped) \<longleftrightarrow> ?applies"
    using flag later by (auto simp: tripOutcome_def matched Let_def)
  with gate show ?thesis by simp
qed

text \<open>
  C4, amended, at 13:30: the 14:00 visit has not departed, its date-less cancellation
  applies because the visit is within four hours, and the visit is dropped as cancelled.
\<close>

theorem cancellation_gate_witness:
  "lookupTripUpdate cancellations stba = Some canceled_stba
   \<and> res_departureTime (resolveTripTimes stba None) = Some 1199455200000
   \<and> half_past_one \<le> 1199455200000
   \<and> tripOutcome half_past_one cancellations [] 0 stba = TripCanceled"
proof -
  have m: "lookupTripUpdate cancellations stba = Some canceled_stba"
    by (simp add: lookupTripUpdate_def cancellations_def example_defs)
  have f: "td_scheduleRelationship (tu_trip canceled_stba) = Some CANCELED
           \<or> (\<exists>u. findStopTimeUpdate (Some canceled_stba) stba = Some u
                   \<and> stu_scheduleRelationship u = Some SKIPPED)"
    by (simp add: canceled_stba_def)
  have s: "findStopTimeUpdate (Some canceled_stba) stba = None"
    by (simp add: findStopTimeUpdate_def canceled_stba_def)
  have r: "resolveTripTimes stba None = resolveTripTimes stba (findStopTimeUpdate (Some canceled_stba) stba)"
    by (simp add: s)
  have t: "resolveTripTimes stba None =
      \<lparr>res_departureTime = Some 1199455200000, res_arrivalTime = Some 1199455200000,
       res_isRealtime = False\<rparr>"
    by (simp add: resolve_defs example_defs)
  have d: "(case res_departureTime (resolveTripTimes stba None) of
              Some d \<Rightarrow> half_past_one \<le> d | None \<Rightarrow> True)"
    by (simp add: t half_past_one_def)
  have "tripOutcome half_past_one cancellations [] 0 stba \<noteq> StopSkipped"
    by (simp add: scan_defs resolve_defs example_defs cancellations_def canceled_stba_def)
  with cancellation_gate [OF m f r d, of "[]" 0] m show ?thesis
    by (simp add: t half_past_one_def)
qed

section \<open>Real-time failure degrades to the static schedule\<close>

lemma promiseAll_all_ok:
  "(\<forall>x\<in>set xs. \<exists>y. f x = Inr y) \<Longrightarrow> \<exists>ys. promiseAll (map f xs) = Inr ys"
proof (induction xs)
  case Nil
  then show ?case by simp
next
  case (Cons x xs)
  then obtain y ys where "f x = Inr y" "promiseAll (map f xs) = Inr ys" by auto
  then show ?case by simp
qed

lemma promiseAll_one_fails:
  "x \<in> set xs \<Longrightarrow> f x = Inl e \<Longrightarrow> \<exists>e'. promiseAll (map f xs) = Inl e'"
proof (induction xs)
  case Nil
  then show ?case by simp
next
  case (Cons a as)
  show ?case
  proof (cases "f a")
    case (Inl e0)
    then show ?thesis by simp
  next
    case (Inr y)
    with Cons obtain e' where "promiseAll (map f as) = Inl e'" by auto
    with Inr show ?thesis by simp
  qed
qed

lemma getTripUpdates_not_configured:
  "rtTripUpdates (config self) = None \<Longrightarrow> getTripUpdates self tripIds store = (Inr Map.empty, store)"
  by (simp add: getTripUpdates_def)

lemma getTripUpdates_source_throws:
  assumes "rtTripUpdates (config self) = Some rt"
    and "store (feedCode self @ ''-tripUpdates'') = None"
    and "c \<in> set (fetchConfigs rt)"
    and "fetchOne (httpGet self) c = Inl e"
  shows "\<exists>e'. getTripUpdates self tripIds store = (Inl e', store)"
proof -
  from promiseAll_one_fails [of c "fetchConfigs rt" "fetchOne (httpGet self)" e] assms(3,4)
  obtain e' where "promiseAll (map (fetchOne (httpGet self)) (fetchConfigs rt)) = Inl e'" by blast
  then have "fetchTripUpdates (httpGet self) (fetchConfigs rt) = Inl e'"
    by (simp add: fetchTripUpdates_def)
  with assms(1,2) show ?thesis
    by (simp add: getTripUpdates_def cached_def)
qed

lemma scanDay_static_only:
  assumes "rtTripUpdates (config self) = Some rt"
    and "store (feedCode self @ ''-tripUpdates'') = None"
    and "c \<in> set (fetchConfigs rt)"
    and "fetchOne (httpGet self) c = Inl e"
  shows "scanDay self now rs (st, store) d = scanDay (staticOnly self) now rs (st, store) d
       \<and> (\<forall>s'. scanDay self now rs (st, store) d = Inr s' \<longrightarrow> snd s' = store)"
proof (cases "promiseAll (map (\<lambda>r. getScheduleForRouteAtStop self (routeId r) (stopId r) d) rs)")
  case (Inl e0)
  then show ?thesis by (simp add: scanDay_def staticOnly_def)
next
  case (Inr results)
  from getTripUpdates_source_throws [of self rt store c e "map trip_id (concat results)"] assms
  obtain e' where "getTripUpdates self (map trip_id (concat results)) store = (Inl e', store)"
    by blast
  moreover have "getTripUpdates (staticOnly self) (map trip_id (concat results)) store = (Inr Map.empty, store)"
    by (simp add: getTripUpdates_def staticOnly_def)
  ultimately show ?thesis using Inr
    by (simp add: scanDay_def staticOnly_def Let_def)
qed

lemma scanDays_static_only:
  assumes "rtTripUpdates (config self) = Some rt"
    and "store (feedCode self @ ''-tripUpdates'') = None"
    and "c \<in> set (fetchConfigs rt)"
    and "fetchOne (httpGet self) c = Inl e"
  shows "scanDays self now rs (st, store) ds = scanDays (staticOnly self) now rs (st, store) ds"
proof (induction ds arbitrary: st)
  case Nil
  then show ?case by simp
next
  case (Cons d ds)
  note day = scanDay_static_only [of self rt store c e now rs st d, OF assms]
  show ?case
  proof (cases "scanDay self now rs (st, store) d")
    case (Inl e0)
    with day have "scanDay (staticOnly self) now rs (st, store) d = Inl e0" by simp
    with Inl show ?thesis by simp
  next
    case (Inr s')
    with day have "snd s' = store" by simp
    then obtain st' where s': "s' = (st', store)" by (cases s') simp
    from day Inr have "scanDay (staticOnly self) now rs (st, store) d = Inr s'" by simp
    with Inr show ?thesis by (simp add: s' Cons.IH)
  qed
qed

lemma scanDays_ok:
  "(\<forall>d\<in>set ds. \<forall>r\<in>set rs. \<exists>rows. getScheduleForRouteAtStop self (routeId r) (stopId r) d = Inr rows)
   \<Longrightarrow> \<exists>s'. scanDays self now rs s ds = Inr s'"
proof (induction ds arbitrary: s)
  case Nil
  then show ?case by simp
next
  case (Cons d ds)
  then have "\<forall>r\<in>set rs. \<exists>rows. getScheduleForRouteAtStop self (routeId r) (stopId r) d = Inr rows"
    by simp
  from promiseAll_all_ok [OF this]
  obtain results where "promiseAll (map (\<lambda>r. getScheduleForRouteAtStop self (routeId r) (stopId r) d) rs) = Inr results"
    by blast
  then obtain s' where day: "scanDay self now rs s d = Inr s'"
    by (simp add: scanDay_def Let_def)
  from Cons.prems have "\<forall>d\<in>set ds. \<forall>r\<in>set rs.
      \<exists>rows. getScheduleForRouteAtStop self (routeId r) (stopId r) d = Inr rows"
    by simp
  from Cons.IH [OF this, of s'] day show ?case by simp
qed

text \<open>
  C8 (fetching trip updates never fails the request). Without a configured source the
  fetch yields the empty map; the scan returns a list whenever every timetable query
  succeeds, whatever the real-time endpoints do; and when fetching or decoding a
  configured source throws (on a cache miss), the scan returns exactly what it returns
  with no real-time source configured.
\<close>

theorem trip_update_failure_degrades_to_static:
  "(rtTripUpdates (config self) = None \<longrightarrow>
      getTripUpdates self tripIds store = (Inr Map.empty, store))
   \<and> ((\<forall>d\<in>set scheduleDates. \<forall>r\<in>set rs.
          \<exists>rows. getScheduleForRouteAtStop self (routeId r) (stopId r) d = Inr rows) \<longrightarrow>
       (\<exists>ts. getUpcomingTripsForRoutesAtStops self now rs store = Inr ts))
   \<and> (rtTripUpdates (config self) = Some rt
       \<and> store (feedCode self @ ''-tripUpdates'') = None
       \<and> c \<in> set (fetchConfigs rt)
       \<and> ((\<exists>e. httpGet self c = Inl e) \<or> (\<exists>resp e. httpGet self c = Inr resp \<and> decoded resp = Inl e))
       \<longrightarrow> getUpcomingTripsForRoutesAtStops self now rs store =
           getUpcomingTripsForRoutesAtStops (staticOnly self) now rs store)"
proof (intro conjI impI)
  assume "rtTripUpdates (config self) = None"
  then show "getTripUpdates self tripIds store = (Inr Map.empty, store)"
    by (rule getTripUpdates_not_configured)
next
  assume "\<forall>d\<in>set scheduleDates. \<forall>r\<in>set rs.
          \<exists>rows. getScheduleForRouteAtStop self (routeId r) (stopId r) d = Inr rows"
  from scanDays_ok [of scheduleDates rs self now "(\<lparr>tripStops = [], nextRef = 0\<rparr>, store)"] this
  obtain s' where "scanDays self now rs (\<lparr>tripStops = [], nextRef = 0\<rparr>, store) scheduleDates = Inr s'"
    by blast
  then show "\<exists>ts. getUpcomingTripsForRoutesAtStops self now rs store = Inr ts"
    by (simp add: getUpcomingTripsForRoutesAtStops_def)
next
  assume h: "rtTripUpdates (config self) = Some rt
       \<and> store (feedCode self @ ''-tripUpdates'') = None
       \<and> c \<in> set (fetchConfigs rt)
       \<and> ((\<exists>e. httpGet self c = Inl e) \<or> (\<exists>resp e. httpGet self c = Inr resp \<and> decoded resp = Inl e))"
  then obtain e where "fetchOne (httpGet self) c = Inl e"
    by (auto simp: fetchOne_def)
  with h scanDays_static_only [of self rt store c e now rs "\<lparr>tripStops = [], nextRef = 0\<rparr>" scheduleDates]
  have "scanDays self now rs (\<lparr>tripStops = [], nextRef = 0\<rparr>, store) scheduleDates =
      scanDays (staticOnly self) now rs (\<lparr>tripStops = [], nextRef = 0\<rparr>, store) scheduleDates"
    by simp
  then show "getUpcomingTripsForRoutesAtStops self now rs store =
           getUpcomingTripsForRoutesAtStops (staticOnly self) now rs store"
    by (simp add: getUpcomingTripsForRoutesAtStops_def)
qed

lemma scan_with_unreachable_endpoint:
  "getUpcomingTripsForRoutesAtStops unreachable_rt_service half_past_one [stagecoach_query] Map.empty =
     Inr [visit ''STBA'' ''STBA'' ''STAGECOACH'' 2 1199455200000
            \<lparr>routeName := ''Stagecoach'', stopName := ''Stagecoach Hotel'', headsign := ''Shuttle''\<rparr>]"
  by (simp add: scan_defs resolve_defs example_defs unreachable_rt_service_def static_service_def
       stagecoach_query_def timetable_def visit_def cached_def fetchTripUpdates_def fetchOne_def
       fetchConfigs_def rt_endpoint_def)


text \<open>
  C8, for a provider whose only real-time endpoint refuses the connection: the scan
  equals the static-only scan and returns the scheduled visit, not marked real-time.
\<close>

theorem trip_update_failure_degrades_to_static_witness:
  "rtTripUpdates (config unreachable_rt_service) = Some (OneConfig rt_endpoint)
   \<and> httpGet unreachable_rt_service rt_endpoint = Inl (UpstreamError ''connection refused'')
   \<and> getUpcomingTripsForRoutesAtStops unreachable_rt_service half_past_one [stagecoach_query] Map.empty =
       getUpcomingTripsForRoutesAtStops (staticOnly unreachable_rt_service) half_past_one
         [stagecoach_query] Map.empty
   \<and> getUpcomingTripsForRoutesAtStops (staticOnly unreachable_rt_service) half_past_one
         [stagecoach_query] Map.empty =
       Inr [visit ''STBA'' ''STBA'' ''STAGECOACH'' 2 1199455200000
              \<lparr>routeName := ''Stagecoach'', stopName := ''Stagecoach Hotel'', headsign := ''Shuttle''\<rparr>]"
proof -
  have configured: "rtTripUpdates (config unreachable_rt_service) = Some (OneConfig rt_endpoint)"
    by (simp add: unreachable_rt_service_def)
  have refused: "httpGet unreachable_rt_service rt_endpoint = Inl (UpstreamError ''connection refused'')"
    by (simp add: unreachable_rt_service_def static_service_def)
  have same: "getUpcomingTripsForRoutesAtStops unreachable_rt_service half_past_one [stagecoach_query] Map.empty =
       getUpcomingTripsForRoutesAtStops (staticOnly unreachable_rt_service) half_past_one
         [stagecoach_query] Map.empty"
    using configured refused
      trip_update_failure_degrades_to_static
        [where self = unreachable_rt_service and rt = "OneConfig rt_endpoint" and c = rt_endpoint
           and store = Map.empty and rs = "[stagecoach_query]" and now = half_past_one]
    by (simp add: fetchConfigs_def)
  from same configured refused scan_with_unreachable_endpoint show ?thesis by simp
qed

section \<open>Properties of the schedule aggregator\<close>







lemma pairKey_same_pair:
  "trip_routeId t = trip_routeId t' \<Longrightarrow> trip_stopId t = trip_stopId t' \<Longrightarrow> pairKey t = pairKey t'"
  by (simp add: pairKey_def)







end
